theory Spec2Isabelle
  imports Main "HOL-Library.Char_ord" "HOL-Library.List_Lexorder" "HOL-Library.Multiset"
begin

section \<open>Python strings and integers\<close>

text \<open>
  Strings are byte lists: the UTF-8 encoding of the Python string. The helpers below are
  the Python built-ins the modelled modules call: \<^verbatim>\<open>str(int)\<close> inside f-strings,
  \<^verbatim>\<open>str.strip()\<close>, \<^verbatim>\<open>str.split('\n')\<close>, \<^verbatim>\<open>str.lower()\<close>,
  \<^verbatim>\<open>str.startswith\<close>, the substring test \<^verbatim>\<open>a in b\<close> and the truthiness
  test behind \<^verbatim>\<open>x or default\<close>.

  \<open>strip\<close> removes the white space of Python from both ends: the ASCII characters
  9 to 13 and 28 to 32 (\<open>is_space\<close>), the characters U+0085 and U+00A0, encoded in
  two bytes (\<open>is_space2\<close>), and U+1680, U+2000 to U+200A, U+2028, U+2029, U+202F,
  U+205F and U+3000, encoded in three (\<open>is_space3\<close>). \<open>rstrip_rev\<close> works on the
  reversed string, so it meets the bytes of a character last byte first. \<open>lower\<close>
  treats the ASCII letters, which is what the platform names consist of.
\<close>

definition digit_char :: "nat \<Rightarrow> char" where
  "digit_char d = ''0123456789'' ! d"

function str_nat :: "nat \<Rightarrow> string" where
  "str_nat n = (if n < 10 then [digit_char n] else str_nat (n div 10) @ [digit_char (n mod 10)])"
  by pat_completeness auto
termination
  by (relation "measure id") auto

declare str_nat.simps [simp del]

definition str_int :: "int \<Rightarrow> string" where
  "str_int i = (if i < 0 then CHR ''-'' # str_nat (nat (- i)) else str_nat (nat i))"

definition is_space :: "char \<Rightarrow> bool" where
  "is_space c = (of_char c \<in> {9, 10, 11, 12, 13, 28, 29, 30, 31, 32 :: nat})"

definition is_space2 :: "char \<Rightarrow> char \<Rightarrow> bool" where
  "is_space2 c d = (c = CHR 0xC2 \<and> (d = CHR 0x85 \<or> d = CHR 0xA0))"

definition is_space3 :: "char \<Rightarrow> char \<Rightarrow> char \<Rightarrow> bool" where
  "is_space3 c d e =
     (c = CHR 0xE1 \<and> d = CHR 0x9A \<and> e = CHR 0x80 \<or>
      c = CHR 0xE2 \<and> d = CHR 0x80 \<and>
        (of_char e \<in> {128 .. 138 :: nat} \<or> e = CHR 0xA8 \<or> e = CHR 0xA9 \<or> e = CHR 0xAF) \<or>
      c = CHR 0xE2 \<and> d = CHR 0x81 \<and> e = CHR 0x9F \<or>
      c = CHR 0xE3 \<and> d = CHR 0x80 \<and> e = CHR 0x80)"

fun lstrip :: "string \<Rightarrow> string" where
  "lstrip [] = []"
| "lstrip [c] = (if is_space c then [] else [c])"
| "lstrip [c, d] =
     (if is_space c then lstrip [d] else if is_space2 c d then [] else [c, d])"
| "lstrip (c # d # e # s) =
     (if is_space c then lstrip (d # e # s)
      else if is_space2 c d then lstrip (e # s)
      else if is_space3 c d e then lstrip s
      else c # d # e # s)"

fun rstrip_rev :: "string \<Rightarrow> string" where
  "rstrip_rev [] = []"
| "rstrip_rev [c] = (if is_space c then [] else [c])"
| "rstrip_rev [c, d] =
     (if is_space c then rstrip_rev [d] else if is_space2 d c then [] else [c, d])"
| "rstrip_rev (c # d # e # s) =
     (if is_space c then rstrip_rev (d # e # s)
      else if is_space2 d c then rstrip_rev (e # s)
      else if is_space3 e d c then rstrip_rev s
      else c # d # e # s)"

definition strip :: "string \<Rightarrow> string" where
  "strip s = rev (rstrip_rev (rev (lstrip s)))"

fun split_nl :: "string \<Rightarrow> string list" where
  "split_nl [] = [[]]"
| "split_nl (c # cs) =
     (if c = CHR 0x0A then [] # split_nl cs
      else (c # hd (split_nl cs)) # tl (split_nl cs))"

definition lower_char :: "char \<Rightarrow> char" where
  "lower_char c =
     (if 65 \<le> (of_char c :: nat) \<and> (of_char c :: nat) \<le> 90 then char_of (of_char c + 32 :: nat) else c)"

definition lower :: "string \<Rightarrow> string" where
  "lower s = map lower_char s"

fun startswith :: "string \<Rightarrow> string \<Rightarrow> bool" where
  "startswith s [] = True"
| "startswith [] (p # ps) = False"
| "startswith (c # cs) (p # ps) = (c = p \<and> startswith cs ps)"

fun str_in :: "string \<Rightarrow> string \<Rightarrow> bool" where
  "str_in p [] = (p = [])"
| "str_in p (c # cs) = (startswith (c # cs) p \<or> str_in p cs)"

definition or_int :: "int option \<Rightarrow> int \<Rightarrow> int" where
  "or_int v d = (case v of None \<Rightarrow> d | Some i \<Rightarrow> if i = 0 then d else i)"

definition or_str :: "string option \<Rightarrow> string \<Rightarrow> string" where
  "or_str v d = (case v of None \<Rightarrow> d | Some s \<Rightarrow> if s = [] then d else s)"

section \<open>The outside world\<close>

text \<open>
  Every function of the repository that the claims are about talks to the operating
  system. The world is a record of oracles, one for each library call the code makes;
  each oracle sees the trace of the calls made so far, so the world may react to what the
  program did (a container that was started shows up in a later listing). The program
  state is that trace: a function takes it and returns it extended by the calls it made.
  Log output is not part of the trace: the logging helpers only print.
\<close>

datatype command = Shell string | Argv "string list"

record invocation =
  inv_command :: command
  inv_cwd :: "string option"
  inv_env :: "(string \<times> string) list option"
  inv_capture_output :: bool
  inv_shell :: bool

datatype exn =
    CalledProcessError int command "string option" "string option"
  | OtherException string

datatype proc_outcome =
    Exited int string string
  | FileNotFound string
  | Failed string

datatype event =
    Which string
  | Subprocess invocation
  | Sleep nat
  | UrlOpen string
  | TmpCreate
  | FileWrite string string
  | MakeDirs string
  | Rename string string
  | Chmod string nat

type_synonym trace = "event list"

record asset =
  asset_name :: string
  browser_download_url :: string

record release_data =
  tag_name :: string
  assets :: "asset list"

record system =
  sys_which :: "trace \<Rightarrow> string \<Rightarrow> bool"
  sys_subprocess :: "trace \<Rightarrow> invocation \<Rightarrow> proc_outcome"
  sys_exn_str :: "exn \<Rightarrow> string"
  sys_urlopen :: "trace \<Rightarrow> string \<Rightarrow> string + string"
  sys_release_of_json :: "string \<Rightarrow> string + release_data"
  sys_mktemp :: "trace \<Rightarrow> string + string"
  sys_fs :: "trace \<Rightarrow> event \<Rightarrow> string option"
  sys_platform_system :: string
  sys_platform_machine :: string
  sys_home :: string
  sys_path_dirs :: "string list"
  sys_access_w :: "string \<Rightarrow> bool"
  sys_path_join :: "string \<Rightarrow> string \<Rightarrow> string"
  sys_dirname :: "string \<Rightarrow> string"

text \<open>
  \<open>sys_subprocess\<close> is \<^verbatim>\<open>subprocess.run(..., text=True, check=False)\<close>: the process
  exits with a code and its two streams, or the call raises \<^verbatim>\<open>FileNotFoundError\<close>
  (the program cannot be located), or it raises some other \<^verbatim>\<open>Exception\<close>.
  \<open>sys_exn_str\<close> is \<^verbatim>\<open>str(e)\<close>. The oracles of the installer return \<open>Inl msg\<close>
  when the library call raises an exception with that message. \<open>sys_release_of_json\<close>
  is \<^verbatim>\<open>json.loads\<close> followed by the subscripts the installer applies to the
  document; a document on which one of them raises is \<open>Inl\<close>.

  Exceptions are those of class \<^verbatim>\<open>Exception\<close>, the ones the handlers of the code
  catch; an interrupt from the keyboard is not modelled. The streams of a finished process
  are strings: every call in the repository captures the output.
\<close>

section \<open>Process runner (src/utils/commands.py)\<close>

record completed_process =
  args :: command
  returncode :: int
  stdout :: string
  stderr :: string

definition command_exists :: "system \<Rightarrow> string \<Rightarrow> trace \<Rightarrow> bool \<times> trace" where
  "command_exists sys cmd tr = (sys_which sys tr cmd, tr @ [Which cmd])"

definition is_str :: "command \<Rightarrow> bool" where
  "is_str c = (case c of Shell _ \<Rightarrow> True | Argv _ \<Rightarrow> False)"

definition run ::
  "system \<Rightarrow> bool \<Rightarrow> command \<Rightarrow> string option \<Rightarrow> (string \<times> string) list option \<Rightarrow>
   bool \<Rightarrow> bool \<Rightarrow> bool option \<Rightarrow> trace \<Rightarrow> (exn + completed_process) \<times> trace" where
  "run sys dry_run cmd cwd env capture_output check shell tr =
     (let shell' = (case shell of None \<Rightarrow> is_str cmd | Some b \<Rightarrow> b) in
      if dry_run then
        (Inr \<lparr>args = cmd, returncode = 0, stdout = '''', stderr = ''''\<rparr>, tr)
      else
        let inv = \<lparr>inv_command = cmd, inv_cwd = cwd, inv_env = env,
                   inv_capture_output = capture_output, inv_shell = shell'\<rparr>;
            tr' = tr @ [Subprocess inv]
        in case sys_subprocess sys tr inv of
             Exited rc out err \<Rightarrow>
               if check \<and> rc \<noteq> 0
               then (Inl (CalledProcessError rc cmd (Some out) (Some err)), tr')
               else (Inr \<lparr>args = cmd, returncode = rc, stdout = out, stderr = err\<rparr>, tr')
           | FileNotFound msg \<Rightarrow> (Inl (CalledProcessError 127 cmd None (Some msg)), tr')
           | Failed msg \<Rightarrow> (Inl (OtherException msg), tr'))"

definition run_with_output ::
  "system \<Rightarrow> bool \<Rightarrow> command \<Rightarrow> string option \<Rightarrow> (string \<times> string) list option \<Rightarrow>
   trace \<Rightarrow> (int \<times> string \<times> string) \<times> trace" where
  "run_with_output sys dry_run cmd cwd env tr =
     (case run sys dry_run cmd cwd env True False None tr of
        (Inr result, tr') \<Rightarrow> ((returncode result, stdout result, stderr result), tr')
      | (Inl e, tr') \<Rightarrow> ((1, '''', sys_exn_str sys e), tr'))"

section \<open>Configuration (src/utils/config.py)\<close>

record config =
  registry_port :: int
  registry_name :: string
  registry_host :: string
  cluster_name :: string
  namespace :: string
  demo_duration :: int
  project_root :: "string option"

definition registry_url :: "config \<Rightarrow> string" where
  "registry_url c = registry_host c @ '':'' @ str_int (registry_port c)"

section \<open>Registry lifecycle (src/utils/docker_utils.py)\<close>

text \<open>
  A \<open>DockerManager\<close> holds a runner with the manager's dry-run flag and the
  configuration; both are parameters here. A method that can let an exception escape
  returns \<open>exn + bool\<close>; one whose body is inside \<^verbatim>\<open>try ... except Exception\<close>
  returns the plain value.
\<close>

definition check_docker_available :: "system \<Rightarrow> bool \<Rightarrow> trace \<Rightarrow> bool \<times> trace" where
  "check_docker_available sys dry_run tr =
     (case command_exists sys ''docker'' tr of
        (ex, tr1) \<Rightarrow>
          if \<not> ex then (False, tr1)
          else (case run sys dry_run (Argv [''docker'', ''info'']) None None True False None tr1 of
                  (Inr result, tr2) \<Rightarrow>
                    if returncode result \<noteq> 0 then (False, tr2) else (True, tr2)
                | (Inl e, tr2) \<Rightarrow> (False, tr2)))"

definition is_registry_running ::
  "system \<Rightarrow> bool \<Rightarrow> config \<Rightarrow> string option \<Rightarrow> trace \<Rightarrow> bool \<times> trace" where
  "is_registry_running sys dry_run cfg name tr =
     (let name' = or_str name (registry_name cfg) in
      case run sys dry_run (Argv [''docker'', ''ps'', ''--format'', ''{{.Names}}''])
             None None True False None tr of
        (Inr result, tr1) \<Rightarrow>
          if returncode result = 0
          then (name' \<in> set (split_nl (strip (stdout result))), tr1)
          else (False, tr1)
      | (Inl e, tr1) \<Rightarrow> (False, tr1))"

definition is_registry_healthy ::
  "system \<Rightarrow> bool \<Rightarrow> config \<Rightarrow> int option \<Rightarrow> trace \<Rightarrow> bool \<times> trace" where
  "is_registry_healthy sys dry_run cfg port tr =
     (let port' = or_int port (registry_port cfg) in
      case run sys dry_run
             (Argv [''curl'', ''-f'', ''-s'', ''http://localhost:'' @ str_int port' @ ''/v2/''])
             None None True False None tr of
        (Inr result, tr1) \<Rightarrow> (returncode result = 0, tr1)
      | (Inl e, tr1) \<Rightarrow> (False, tr1))"

text \<open>
  The loop of \<open>cleanup_registry_port\<close> over the container ids. An exception of a
  removal leaves the loop; the caller's handler swallows it.
\<close>

fun remove_containers ::
  "system \<Rightarrow> bool \<Rightarrow> string list \<Rightarrow> trace \<Rightarrow> exn option \<times> trace" where
  "remove_containers sys dry_run [] tr = (None, tr)"
| "remove_containers sys dry_run (container_id # ids) tr =
     (if container_id \<noteq> [] then
        (case run sys dry_run (Argv [''docker'', ''rm'', ''-f'', container_id])
                None None True False None tr of
           (Inr result, tr1) \<Rightarrow> remove_containers sys dry_run ids tr1
         | (Inl e, tr1) \<Rightarrow> (Some e, tr1))
      else remove_containers sys dry_run ids tr)"

definition cleanup_registry_port :: "system \<Rightarrow> bool \<Rightarrow> int \<Rightarrow> trace \<Rightarrow> trace" where
  "cleanup_registry_port sys dry_run port tr =
     (case run sys dry_run
             (Argv [''docker'', ''ps'', ''-a'', ''--filter'', ''publish='' @ str_int port,
                    ''--format'', ''{{.ID}}''])
             None None True False None tr of
        (Inr result, tr1) \<Rightarrow>
          if returncode result = 0 \<and> strip (stdout result) \<noteq> []
          then snd (remove_containers sys dry_run (split_nl (strip (stdout result))) tr1)
          else tr1
      | (Inl e, tr1) \<Rightarrow> tr1)"

text \<open>
  The health poll of \<open>start_registry\<close>: \<^verbatim>\<open>for i in range(30)\<close>, with the number
  of iterations left as the recursion argument.
\<close>

fun health_poll ::
  "system \<Rightarrow> bool \<Rightarrow> config \<Rightarrow> int \<Rightarrow> nat \<Rightarrow> trace \<Rightarrow> bool \<times> trace" where
  "health_poll sys dry_run cfg port 0 tr = (False, tr)"
| "health_poll sys dry_run cfg port (Suc n) tr =
     (case is_registry_healthy sys dry_run cfg (Some port) tr of
        (healthy, tr1) \<Rightarrow>
          if healthy then (True, tr1)
          else health_poll sys dry_run cfg port n (tr1 @ [Sleep 1]))"

definition docker_run_command :: "int \<Rightarrow> string \<Rightarrow> command" where
  "docker_run_command port name =
     Argv [''docker'', ''run'', ''-d'', ''-p'', str_int port @ '':5000'',
           ''--name'', name, ''registry:2'']"

definition start_registry ::
  "system \<Rightarrow> bool \<Rightarrow> config \<Rightarrow> int option \<Rightarrow> string option \<Rightarrow> trace \<Rightarrow>
   (exn + bool) \<times> trace" where
  "start_registry sys dry_run cfg port name tr =
     (let port' = or_int port (registry_port cfg);
          name' = or_str name (registry_name cfg)
      in case is_registry_running sys dry_run cfg (Some name') tr of
           (running, tr1) \<Rightarrow>
             if running then (Inr True, tr1)
             else
               let tr2 = cleanup_registry_port sys dry_run port' tr1 in
               (case run sys dry_run (Argv [''docker'', ''rm'', ''-f'', name'])
                       None None True False None tr2 of
                  (Inl e, tr3) \<Rightarrow> (Inl e, tr3)
                | (Inr removed, tr3) \<Rightarrow>
                    (case run sys dry_run (docker_run_command port' name')
                            None None True True None tr3 of
                       (Inl e, tr4) \<Rightarrow> (Inr False, tr4)
                     | (Inr result, tr4) \<Rightarrow>
                         if returncode result = 0
                         then (case health_poll sys dry_run cfg port' 30 tr4 of
                                 (ok, tr5) \<Rightarrow> (Inr ok, tr5))
                         else (Inr False, tr4))))"

definition stop_registry ::
  "system \<Rightarrow> bool \<Rightarrow> config \<Rightarrow> string option \<Rightarrow> trace \<Rightarrow> bool \<times> trace" where
  "stop_registry sys dry_run cfg name tr =
     (let name' = or_str name (registry_name cfg) in
      case run sys dry_run (Argv [''docker'', ''stop'', name']) None None True False None tr of
        (Inl e, tr1) \<Rightarrow> (False, tr1)
      | (Inr stopped, tr1) \<Rightarrow>
          (case run sys dry_run (Argv [''docker'', ''rm'', name']) None None True False None tr1 of
             (Inl e, tr2) \<Rightarrow> (False, tr2)
           | (Inr removed, tr2) \<Rightarrow> (True, tr2)))"

record registry_status =
  status_name :: string
  status_port :: int
  url :: string
  running :: bool
  healthy :: bool
  docker_available :: bool

definition get_registry_status ::
  "system \<Rightarrow> bool \<Rightarrow> config \<Rightarrow> trace \<Rightarrow> registry_status \<times> trace" where
  "get_registry_status sys dry_run cfg tr =
     (let name = registry_name cfg; port = registry_port cfg in
      case is_registry_running sys dry_run cfg (Some name) tr of
        (r, tr1) \<Rightarrow>
          (case is_registry_healthy sys dry_run cfg (Some port) tr1 of
             (h, tr2) \<Rightarrow>
               (case (if \<not> dry_run then check_docker_available sys dry_run tr2 else (True, tr2)) of
                  (d, tr3) \<Rightarrow>
                    (\<lparr>status_name = name, status_port = port,
                      url = ''http://localhost:'' @ str_int port,
                      running = r, healthy = h, docker_available = d\<rparr>, tr3))))"

section \<open>Component-model CLI client (src/utils/ocm_utils.py)\<close>

definition check_ocm_available :: "system \<Rightarrow> bool \<Rightarrow> trace \<Rightarrow> bool \<times> trace" where
  "check_ocm_available sys dry_run tr =
     (case command_exists sys ''ocm'' tr of
        (ex, tr1) \<Rightarrow>
          if \<not> ex then (False, tr1)
          else (case run sys dry_run (Argv [''ocm'', ''version'']) None None True True None tr1 of
                  (Inr result, tr2) \<Rightarrow> (True, tr2)
                | (Inl e, tr2) \<Rightarrow> (False, tr2)))"

definition get_version :: "system \<Rightarrow> bool \<Rightarrow> trace \<Rightarrow> string option \<times> trace" where
  "get_version sys dry_run tr =
     (case run sys dry_run (Argv [''ocm'', ''version'']) None None True True None tr of
        (Inr result, tr1) \<Rightarrow> (Some (strip (stdout result)), tr1)
      | (Inl e, tr1) \<Rightarrow> (None, tr1))"

section \<open>Environment manager (src/core/environment.py)\<close>

text \<open>
  The library calls of the installer, each recording its event. The two methods whose
  Python names start with an underscore are \<open>download_and_install_ocm\<close> and
  \<open>get_install_directory\<close> here.
\<close>

definition urlopen :: "system \<Rightarrow> string \<Rightarrow> trace \<Rightarrow> (string + string) \<times> trace" where
  "urlopen sys u tr = (sys_urlopen sys tr u, tr @ [UrlOpen u])"

definition mktemp :: "system \<Rightarrow> trace \<Rightarrow> (string + string) \<times> trace" where
  "mktemp sys tr = (sys_mktemp sys tr, tr @ [TmpCreate])"

definition fs_op :: "system \<Rightarrow> event \<Rightarrow> trace \<Rightarrow> string option \<times> trace" where
  "fs_op sys ev tr = (sys_fs sys tr ev, tr @ [ev])"

definition dict_get :: "(string \<times> bool) list \<Rightarrow> string \<Rightarrow> bool \<Rightarrow> bool" where
  "dict_get d k dflt = (case map_of d k of None \<Rightarrow> dflt | Some v \<Rightarrow> v)"

definition check_prerequisites :: "system \<Rightarrow> bool \<Rightarrow> trace \<Rightarrow> (string \<times> bool) list \<times> trace" where
  "check_prerequisites sys dry_run tr =
     (case check_docker_available sys dry_run tr of (docker, tr1) \<Rightarrow>
      case check_ocm_available sys dry_run tr1 of (ocm, tr2) \<Rightarrow>
      case command_exists sys ''curl'' tr2 of (curl, tr3) \<Rightarrow>
      case command_exists sys ''kubectl'' tr3 of (kubectl, tr4) \<Rightarrow>
      case command_exists sys ''kind'' tr4 of (kind, tr5) \<Rightarrow>
      case command_exists sys ''git'' tr5 of (git, tr6) \<Rightarrow>
        ([(''docker'', docker), (''ocm'', ocm), (''curl'', curl),
          (''kubectl'', kubectl), (''kind'', kind), (''git'', git)], tr6))"

definition get_install_directory :: "system \<Rightarrow> string" where
  "get_install_directory sys =
     (if lower (sys_platform_system sys) = ''windows''
      then sys_path_join sys (sys_home sys) ''bin''
      else
        let home = sys_home sys;
            preferred_dirs =
              [sys_path_join sys (sys_path_join sys home ''.local'') ''bin'',
               sys_path_join sys home ''bin'',
               ''/usr/local/bin'']
        in case filter (\<lambda>dir_path. dir_path \<in> set (sys_path_dirs sys) \<and>
                                    sys_access_w sys (sys_dirname sys dir_path)) preferred_dirs of
             dir_path # _ \<Rightarrow> dir_path
           | [] \<Rightarrow> sys_path_join sys (sys_path_join sys home ''.local'') ''bin'')"

fun find_download_url :: "string \<Rightarrow> asset list \<Rightarrow> string option" where
  "find_download_url binary_name [] = None"
| "find_download_url binary_name (a # rest) =
     (if str_in binary_name (asset_name a) then Some (browser_download_url a)
      else find_download_url binary_name rest)"

definition api_url :: string where
  "api_url = ''https://api.github.com/repos/open-component-model/ocm/releases/latest''"

text \<open>
  The last part of the \<^verbatim>\<open>try\<close> block of the installer, from the creation of the
  install directory on. \<open>Inl\<close> is an exception, which the caller's handler turns into
  \<open>False\<close>.
\<close>

definition place_binary ::
  "system \<Rightarrow> bool \<Rightarrow> string \<Rightarrow> string \<Rightarrow> trace \<Rightarrow> (string + bool) \<times> trace" where
  "place_binary sys dry_run os_name tmp_path tr =
     (let install_dir = get_install_directory sys in
      case fs_op sys (MakeDirs install_dir) tr of
        (Some msg, tr1) \<Rightarrow> (Inl msg, tr1)
      | (None, tr1) \<Rightarrow>
          let binary_name = (if os_name = ''windows'' then ''ocm'' @ ''.exe'' else ''ocm'');
              install_path = sys_path_join sys install_dir binary_name
          in (case (if dry_run then (None, tr1)
                    else (case fs_op sys (Rename tmp_path install_path) tr1 of
                            (Some msg, tr2) \<Rightarrow> (Some msg, tr2)
                          | (None, tr2) \<Rightarrow> fs_op sys (Chmod install_path 493) tr2)) of
                (Some msg, tr3) \<Rightarrow> (Inl msg, tr3)
              | (None, tr3) \<Rightarrow>
                  (case command_exists sys ''ocm'' tr3 of
                     (ex, tr4) \<Rightarrow>
                       if ex \<or> dry_run then (Inr True, tr4) else (Inr False, tr4))))"

definition download_and_install_try ::
  "system \<Rightarrow> bool \<Rightarrow> string \<Rightarrow> string \<Rightarrow> trace \<Rightarrow> (string + bool) \<times> trace" where
  "download_and_install_try sys dry_run os_name arch tr =
     (case urlopen sys api_url tr of
        (Inl msg, tr1) \<Rightarrow> (Inl msg, tr1)
      | (Inr body, tr1) \<Rightarrow>
          (case sys_release_of_json sys body of
             Inl msg \<Rightarrow> (Inl msg, tr1)
           | Inr release \<Rightarrow>
               let binary_name = ''ocm-'' @ tag_name release @ ''-'' @ os_name @ ''-'' @ arch;
                   binary_name' = (if os_name = ''windows'' then binary_name @ ''.exe''
                                   else binary_name)
               in (case find_download_url binary_name' (assets release) of
                     None \<Rightarrow> (Inr False, tr1)
                   | Some download_url \<Rightarrow>
                       if download_url = [] then (Inr False, tr1)
                       else
                         (case mktemp sys tr1 of
                            (Inl msg, tr2) \<Rightarrow> (Inl msg, tr2)
                          | (Inr tmp_path, tr2) \<Rightarrow>
                              (case urlopen sys download_url tr2 of
                                 (Inl msg, tr3) \<Rightarrow> (Inl msg, tr3)
                               | (Inr content, tr3) \<Rightarrow>
                                   (case fs_op sys (FileWrite tmp_path content) tr3 of
                                      (Some msg, tr4) \<Rightarrow> (Inl msg, tr4)
                                    | (None, tr4) \<Rightarrow>
                                        place_binary sys dry_run os_name tmp_path tr4))))))"

definition download_and_install_ocm ::
  "system \<Rightarrow> bool \<Rightarrow> string \<Rightarrow> string \<Rightarrow> trace \<Rightarrow> bool \<times> trace" where
  "download_and_install_ocm sys dry_run os_name arch tr =
     (case download_and_install_try sys dry_run os_name arch tr of
        (Inr ok, tr') \<Rightarrow> (ok, tr')
      | (Inl msg, tr') \<Rightarrow> (False, tr'))"

definition install_ocm_cli :: "system \<Rightarrow> bool \<Rightarrow> trace \<Rightarrow> bool \<times> trace" where
  "install_ocm_cli sys dry_run tr =
     (case command_exists sys ''ocm'' tr of
        (ex, tr1) \<Rightarrow>
          if ex then (True, tr1)
          else
            let os_name = lower (sys_platform_system sys);
                arch = lower (sys_platform_machine sys)
            in if arch \<in> set [''x86_64'', ''amd64''] then
                 (if os_name = ''darwin'' \<or> os_name = ''linux'' \<or> os_name = ''windows''
                  then download_and_install_ocm sys dry_run os_name ''amd64'' tr1
                  else (False, tr1))
               else if arch \<in> set [''arm64'', ''aarch64''] then
                 (if os_name = ''darwin'' \<or> os_name = ''linux'' \<or> os_name = ''windows''
                  then download_and_install_ocm sys dry_run os_name ''arm64'' tr1
                  else (False, tr1))
               else (False, tr1))"

text \<open>
  \<open>setup_environment\<close> keeps the source's \<open>success\<close> variable. The list of the other
  missing tools is only logged, so it does not appear. The single exception that can
  escape is the one of the unguarded \<^verbatim>\<open>docker rm -f\<close> in \<open>start_registry\<close>.
\<close>

definition setup_environment ::
  "system \<Rightarrow> bool \<Rightarrow> config \<Rightarrow> bool \<Rightarrow> trace \<Rightarrow> (exn + bool) \<times> trace" where
  "setup_environment sys dry_run cfg install_missing tr =
     (case check_prerequisites sys dry_run tr of
        (prerequisites, tr1) \<Rightarrow>
          (case (if install_missing \<and> \<not> dict_get prerequisites ''ocm'' False
                 then (case install_ocm_cli sys dry_run tr1 of
                         (installed, tr2) \<Rightarrow> (if \<not> installed then False else True, tr2))
                 else (True, tr1)) of
             (success, tr2) \<Rightarrow>
               if dict_get prerequisites ''docker'' False
               then (case start_registry sys dry_run cfg None None tr2 of
                       (Inl e, tr3) \<Rightarrow> (Inl e, tr3)
                     | (Inr started, tr3) \<Rightarrow>
                         (Inr (if \<not> started then False else success), tr3))
               else (Inr success, tr2)))"

record environment_status =
  prerequisites :: "(string \<times> bool) list"
  registry :: registry_status
  ocm_version :: "string option"
  ready :: bool

definition get_environment_status ::
  "system \<Rightarrow> bool \<Rightarrow> config \<Rightarrow> trace \<Rightarrow> environment_status \<times> trace" where
  "get_environment_status sys dry_run cfg tr =
     (case check_prerequisites sys dry_run tr of (prereqs, tr1) \<Rightarrow>
      case get_registry_status sys dry_run cfg tr1 of (registry_status, tr2) \<Rightarrow>
      case get_version sys dry_run tr2 of (version, tr3) \<Rightarrow>
        (\<lparr>prerequisites = prereqs,
          registry = registry_status,
          ocm_version = version,
          ready = (list_all (\<lambda>v. v) (map snd prereqs) \<and> running registry_status)\<rparr>, tr3))"

section \<open>Demo runner (src/core/demo.py)\<close>

text \<open>
  \<open>examples_dir\<close> is what the file system shows at the examples root: \<open>None\<close> when
  the directory does not exist, else the entries \<^verbatim>\<open>iterdir()\<close> yields, each with its
  name and whether it is a directory.
\<close>

record dir_entry =
  entry_name :: string
  is_dir :: bool

definition list_available_examples :: "dir_entry list option \<Rightarrow> string list" where
  "list_available_examples examples_dir =
     sort (case examples_dir of
             None \<Rightarrow> []
           | Some items \<Rightarrow>
               map entry_name
                 (filter (\<lambda>item. is_dir item \<and> \<not> startswith (entry_name item) ''.'') items))"

section \<open>Concrete configurations and worlds\<close>

text \<open>
  \<open>default_config\<close> holds the defaults of the \<open>Config\<close> dataclass;
  \<open>example_config\<close> is the configuration of the repository's own URL test.
\<close>

definition default_config :: config where
  "default_config =
     \<lparr>registry_port = 5001, registry_name = ''local-registry'', registry_host = ''localhost'',
      cluster_name = ''ocm-demo'', namespace = ''ocm-demos'', demo_duration = 300,
      project_root = None\<rparr>"

definition example_config :: config where
  "example_config = default_config\<lparr>registry_host := ''example.com'', registry_port := 8080\<rparr>"

text \<open>
  \<open>base_system\<close> is a Linux host with every tool on the path, where every process
  exits with the code and output that \<open>answer\<close> gives for its command, the release
  document lists one matching asset, and no library call fails.
\<close>

definition base_system :: "(command \<Rightarrow> proc_outcome) \<Rightarrow> system" where
  "base_system answer =
     \<lparr>sys_which = (\<lambda>tr cmd. True),
      sys_subprocess = (\<lambda>tr inv. answer (inv_command inv)),
      sys_exn_str = (\<lambda>e. case e of
                            CalledProcessError rc cmd out err \<Rightarrow>
                              ''exit status '' @ str_int rc
                          | OtherException msg \<Rightarrow> msg),
      sys_urlopen = (\<lambda>tr u. Inr ''payload''),
      sys_release_of_json = (\<lambda>body.
         Inr \<lparr>tag_name = ''v1'',
              assets = [\<lparr>asset_name = ''ocm-v1-linux-amd64'',
                         browser_download_url = ''https://example.com/ocm''\<rparr>]\<rparr>),
      sys_mktemp = (\<lambda>tr. Inr ''/tmp/t''),
      sys_fs = (\<lambda>tr ev. None),
      sys_platform_system = ''Linux'',
      sys_platform_machine = ''x86_64'',
      sys_home = ''/home/u'',
      sys_path_dirs = [''/usr/bin''],
      sys_access_w = (\<lambda>d. True),
      sys_path_join = (\<lambda>a b. a @ ''/'' @ b),
      sys_dirname = (\<lambda>d. d)\<rparr>"

text \<open>Every process exits 0 and prints the name of the default registry container.\<close>

definition registry_up :: system where
  "registry_up = base_system (\<lambda>cmd. Exited 0 (''local-registry'' @ [CHR 0x0A]) [])"

text \<open>Every process exits 1: the engine answers, but no command of it succeeds.\<close>

definition engine_down :: system where
  "engine_down = base_system (\<lambda>cmd. Exited 1 [] [])"

text \<open>
  The engine works and lists no container; \<^verbatim>\<open>curl\<close>, the health probe, always
  exits 7.
\<close>

definition never_healthy :: system where
  "never_healthy =
     base_system (\<lambda>cmd. case cmd of
                          Argv (prog # rest) \<Rightarrow>
                            if prog = ''curl'' then Exited 7 [] [] else Exited 0 [] []
                        | _ \<Rightarrow> Exited 0 [] [])"

text \<open>
  The named container is listed as running, but the health probe always exits 7.
\<close>

definition running_unhealthy :: system where
  "running_unhealthy =
     base_system (\<lambda>cmd. case cmd of
                          Argv (prog # rest) \<Rightarrow>
                            if prog = ''curl'' then Exited 7 [] []
                            else Exited 0 (''local-registry'' @ [CHR 0x0A]) []
                        | _ \<Rightarrow> Exited 0 [] [])"

text \<open>No program can be located: each start of a process raises the not-found error.\<close>

definition nothing_installed :: system where
  "nothing_installed =
     (base_system (\<lambda>cmd. FileNotFound ''No such file or directory''))
       \<lparr>sys_which := (\<lambda>tr cmd. False)\<rparr>"

text \<open>A shell line naming a missing program: the shell itself exits with 127.\<close>

definition shell_not_found :: system where
  "shell_not_found = base_system (\<lambda>cmd. Exited 127 [] ''sh: 1: nosuch: not found'')"

text \<open>The network is unreachable: every \<^verbatim>\<open>urlopen\<close> raises.\<close>

definition offline :: system where
  "offline = (base_system (\<lambda>cmd. Exited 0 [] []))\<lparr>sys_urlopen := (\<lambda>tr u. Inl ''unreachable'')\<rparr>"

text \<open>Every tool is on the path and every process exits 0 without output.\<close>

definition all_working :: system where
  "all_working = base_system (\<lambda>cmd. Exited 0 [] [])"

text \<open>
  As \<open>all_working\<close>, but \<^verbatim>\<open>curl\<close> is not installed: it is not on the path, and
  starting it raises the not-found error.
\<close>

definition curl_missing :: system where
  "curl_missing =
     (base_system (\<lambda>cmd. case cmd of
                           Argv (prog # rest) \<Rightarrow>
                             if prog = ''curl'' then FileNotFound ''No such file or directory''
                             else Exited 0 [] []
                         | _ \<Rightarrow> Exited 0 [] []))
       \<lparr>sys_which := (\<lambda>tr cmd. cmd \<noteq> ''curl'')\<rparr>"

text \<open>
  The managed CLI is missing and the network is down, so its install fails. The engine is
  available, but no process can be started for \<^verbatim>\<open>docker rm\<close>: the start raises an
  operating-system error.
\<close>

definition rm_raises :: system where
  "rm_raises =
     (base_system (\<lambda>cmd. case cmd of
                           Argv (prog # sub # rest) \<Rightarrow>
                             if prog = ''docker'' \<and> sub = ''rm''
                             then Failed ''Resource temporarily unavailable''
                             else Exited 0 [] []
                         | _ \<Rightarrow> Exited 0 [] []))
       \<lparr>sys_which := (\<lambda>tr cmd. cmd \<noteq> ''ocm''),
        sys_urlopen := (\<lambda>tr u. Inl ''unreachable'')\<rparr>"

section \<open>Events named in the properties\<close>

text \<open>
  \<open>executed argv\<close> is the event of a process started the way the registry
  controller starts all of its processes: an argument vector, no working directory, no
  environment, captured output, no shell. \<open>docker_ps\<close> is the listing of running
  containers of \<open>is_registry_running\<close>; \<open>health_probe\<close> is the probe of
  \<open>is_registry_healthy\<close> for a port.
\<close>

definition executed :: "string list \<Rightarrow> event" where
  "executed argv =
     Subprocess \<lparr>inv_command = Argv argv, inv_cwd = None, inv_env = None,
                 inv_capture_output = True, inv_shell = False\<rparr>"

definition docker_ps :: event where
  "docker_ps = executed [''docker'', ''ps'', ''--format'', ''{{.Names}}'']"

definition health_probe :: "int \<Rightarrow> event" where
  "health_probe port =
     executed [''curl'', ''-f'', ''-s'', ''http://localhost:'' @ str_int port @ ''/v2/'']"

text \<open>
  The events that change the system outside the process: a process that runs, a network
  fetch, a file or directory that is created, written, moved or has its mode changed.
  Probing the search path and sleeping change nothing.
\<close>

fun external_effect :: "event \<Rightarrow> bool" where
  "external_effect (Which c) = False"
| "external_effect (Sleep n) = False"
| "external_effect (Subprocess i) = True"
| "external_effect (UrlOpen u) = True"
| "external_effect TmpCreate = True"
| "external_effect (FileWrite p c) = True"
| "external_effect (MakeDirs d) = True"
| "external_effect (Rename a b) = True"
| "external_effect (Chmod p m) = True"

text \<open>The events that place the binary or run a process.\<close>

fun installs_or_executes :: "event \<Rightarrow> bool" where
  "installs_or_executes (Subprocess i) = True"
| "installs_or_executes (Rename a b) = True"
| "installs_or_executes (Chmod p m) = True"
| "installs_or_executes e = False"

section \<open>Auxiliary facts\<close>

subsection \<open>Decimal rendering\<close>

lemma str_int_8080: "str_int 8080 = ''8080''"
  by (simp add: str_int_def str_nat.simps digit_char_def)

lemma str_int_5001: "str_int 5001 = ''5001''"
  by (simp add: str_int_def str_nat.simps digit_char_def)

lemma strip_Nil: "strip [] = []"
  by (simp add: strip_def)

lemma or_int_idem: "or_int (Some (or_int v d)) d = or_int v d"
  by (simp add: or_int_def split: option.splits)

subsection \<open>The runner and the registry controller in dry-run mode\<close>

lemma run_dry:
  "run sys True cmd cwd env capture_output check shell tr =
     (Inr \<lparr>args = cmd, returncode = 0, stdout = [], stderr = []\<rparr>, tr)"
  by (simp add: run_def)

lemma is_registry_running_dry:
  "is_registry_running sys True cfg name tr = (or_str name (registry_name cfg) = [], tr)"
  by (simp add: is_registry_running_def run_dry strip_Nil)

lemma is_registry_healthy_dry:
  "is_registry_healthy sys True cfg port tr = (True, tr)"
  by (simp add: is_registry_healthy_def run_dry)

lemma cleanup_registry_port_dry:
  "cleanup_registry_port sys True port tr = tr"
  by (simp add: cleanup_registry_port_def run_dry strip_Nil)

lemma start_registry_dry:
  "start_registry sys True cfg port name tr = (Inr True, tr)"
  by (simp add: start_registry_def Let_def is_registry_running_dry cleanup_registry_port_dry
      run_dry is_registry_healthy_dry eval_nat_numeral)

lemma stop_registry_dry:
  "stop_registry sys True cfg name tr = (True, tr)"
  by (simp add: stop_registry_def run_dry)

subsection \<open>The trace of a process that really runs\<close>

lemma run_live_trace:
  "snd (run sys False cmd cwd env capture_output check shell tr) =
     tr @ [Subprocess \<lparr>inv_command = cmd, inv_cwd = cwd, inv_env = env,
                        inv_capture_output = capture_output,
                        inv_shell = (case shell of None \<Rightarrow> is_str cmd | Some b \<Rightarrow> b)\<rparr>]"
  by (simp add: run_def Let_def split: proc_outcome.splits)

lemma is_registry_running_trace:
  "snd (is_registry_running sys dry_run cfg name tr) = tr @ (if dry_run then [] else [docker_ps])"
proof (cases dry_run)
  case True
  then show ?thesis by (simp add: is_registry_running_dry)
next
  case False
  then show ?thesis
    using run_live_trace [of sys "Argv [''docker'', ''ps'', ''--format'', ''{{.Names}}'']"
        None None True False None tr]
    by (auto simp add: is_registry_running_def Let_def docker_ps_def executed_def is_str_def
        split: prod.splits sum.splits)
qed

lemma is_registry_healthy_trace:
  "snd (is_registry_healthy sys False cfg port tr) =
     tr @ [health_probe (or_int port (registry_port cfg))]"
  using run_live_trace [of sys
      "Argv [''curl'', ''-f'', ''-s'',
             ''http://localhost:'' @ str_int (or_int port (registry_port cfg)) @ ''/v2/'']"
      None None True False None tr]
  by (auto simp add: is_registry_healthy_def Let_def health_probe_def executed_def is_str_def
      split: prod.splits sum.splits)

text \<open>
  A probe that never succeeds makes every iteration of the poll run: \<open>n\<close> iterations
  leave \<open>n\<close> probes in the trace, each followed by its sleep.
\<close>

lemma health_poll_never:
  assumes never: "\<And>t. \<not> fst (is_registry_healthy sys dry_run cfg (Some port) t)"
  shows "health_poll sys dry_run cfg port n tr =
           (False,
            tr @ concat (replicate n [health_probe (or_int (Some port) (registry_port cfg)), Sleep 1]))"
proof -
  have live: "\<not> dry_run"
    using never [of "[]"] by (auto simp add: is_registry_healthy_dry)
  have step: "is_registry_healthy sys dry_run cfg (Some port) t =
                (False, t @ [health_probe (or_int (Some port) (registry_port cfg))])" for t
    using never [of t] is_registry_healthy_trace [of sys cfg "Some port" t] live
    by (cases "is_registry_healthy sys dry_run cfg (Some port) t") simp
  show ?thesis
  proof (induction n arbitrary: tr)
    case 0
    then show ?case by simp
  next
    case (Suc n)
    then show ?case by (simp add: step)
  qed
qed

subsection \<open>The installer in dry-run mode\<close>

lemma place_binary_dry:
  "place_binary sys True os_name tmp_path tr =
     (case sys_fs sys tr (MakeDirs (get_install_directory sys)) of
        Some msg \<Rightarrow> (Inl msg, tr @ [MakeDirs (get_install_directory sys)])
      | None \<Rightarrow> (Inr True, tr @ [MakeDirs (get_install_directory sys), Which ''ocm'']))"
  by (simp add: place_binary_def Let_def fs_op_def command_exists_def split: option.splits)

lemma download_dry_trace:
  "\<exists>rest. snd (download_and_install_ocm sys True os_name arch tr) = tr @ UrlOpen api_url # rest \<and>
          list_all (\<lambda>e. \<not> installs_or_executes e) rest"
  by (simp add: download_and_install_ocm_def download_and_install_try_def Let_def
      place_binary_dry urlopen_def mktemp_def fs_op_def
      split: sum.splits option.splits prod.splits)

section \<open>The claims\<close>

subsection \<open>C1: dry-run mode and external effects\<close>

text \<open>
  The registry half of claim C1 holds in every world: in dry-run mode the registry start
  and the registry stop return success and leave the trace as it was, so no process runs
  and nothing is fetched or written.
\<close>

lemma registry_dry_run_silent:
  "start_registry sys True cfg port name tr = (Inr True, tr) \<and>
   stop_registry sys True cfg name tr = (True, tr)"
  by (simp add: start_registry_dry stop_registry_dry)

text \<open>
  Claim C1 says that in dry-run mode the installer's download step, the registry start
  and the registry stop have no external effect (no process, no download, no file
  written) and still return success. The installer's download step does not keep it: the
  flag guards only the move of the binary, after the download. Run in dry-run mode on a
  host with a working network, the step fetches the release document and the asset,
  creates and writes the scratch file and creates the install directory, each an external
  effect; run with the network down, it returns \<open>False\<close>.
\<close>

theorem dry_run_download_effects:
  "download_and_install_ocm registry_up True ''linux'' ''amd64'' [] =
     (True, [UrlOpen api_url, TmpCreate, UrlOpen ''https://example.com/ocm'',
             FileWrite ''/tmp/t'' ''payload'', MakeDirs ''/home/u/.local/bin'', Which ''ocm'']) \<and>
   list_all external_effect
     [UrlOpen api_url, TmpCreate, UrlOpen ''https://example.com/ocm'',
      FileWrite ''/tmp/t'' ''payload'', MakeDirs ''/home/u/.local/bin''] \<and>
   download_and_install_ocm offline True ''linux'' ''amd64'' [] = (False, [UrlOpen api_url])"
  by (simp add: download_and_install_ocm_def download_and_install_try_def Let_def
      place_binary_dry urlopen_def mktemp_def fs_op_def registry_up_def offline_def
      base_system_def get_install_directory_def lower_def lower_char_def)

subsection \<open>C2: readiness\<close>

text \<open>
  Claim C2. For every prerequisite mapping that \<open>check_prerequisites\<close> returns and
  every registry status that \<open>get_registry_status\<close> returns after it, the environment
  status carries that mapping and that registry status, and its \<open>ready\<close> field is true
  if and only if every value of the mapping is true and the registry status reports the
  registry as running; so a single false value makes it false.
\<close>

theorem environment_ready_iff:
  assumes "check_prerequisites sys dry_run tr = (pre, tr1)"
    and "get_registry_status sys dry_run cfg tr1 = (status, tr2)"
  shows "prerequisites (fst (get_environment_status sys dry_run cfg tr)) = pre \<and>
         registry (fst (get_environment_status sys dry_run cfg tr)) = status \<and>
         ready (fst (get_environment_status sys dry_run cfg tr)) =
           ((\<forall>(tool, available) \<in> set pre. available) \<and> running status)"
  using assms
  by (auto simp add: get_environment_status_def list_all_iff split: prod.splits)

text \<open>
  The theorem at two worlds. Where the registry container runs, the status is ready.
  Where every prerequisite is there but the container is not listed, it is not ready.
\<close>

theorem environment_ready_witness:
  "ready (fst (get_environment_status registry_up False default_config [])) \<and>
   fst (check_prerequisites never_healthy False []) =
     [(''docker'', True), (''ocm'', True), (''curl'', True), (''kubectl'', True),
      (''kind'', True), (''git'', True)] \<and>
   \<not> running (fst (get_registry_status never_healthy False default_config
                     (snd (check_prerequisites never_healthy False [])))) \<and>
   \<not> ready (fst (get_environment_status never_healthy False default_config []))"
proof -
  have pre_up: "fst (check_prerequisites registry_up False []) =
     [(''docker'', True), (''ocm'', True), (''curl'', True), (''kubectl'', True),
      (''kind'', True), (''git'', True)]"
    by (simp add: check_prerequisites_def check_docker_available_def
        check_ocm_available_def command_exists_def run_def Let_def registry_up_def
        base_system_def split: prod.splits)
  have up: "running (fst (get_registry_status registry_up False default_config t))" for t
    by (simp add: get_registry_status_def is_registry_running_def
        or_str_def strip_def is_space_def is_space2_def is_space3_def default_config_def run_def Let_def registry_up_def
        base_system_def split: prod.splits)
  have pre_nh: "fst (check_prerequisites never_healthy False []) =
     [(''docker'', True), (''ocm'', True), (''curl'', True), (''kubectl'', True),
      (''kind'', True), (''git'', True)]"
    by (simp add: check_prerequisites_def check_docker_available_def
        check_ocm_available_def command_exists_def run_def Let_def never_healthy_def
        base_system_def split: prod.splits)
  have down: "\<not> running (fst (get_registry_status never_healthy False default_config t))" for t
    by (simp add: get_registry_status_def is_registry_running_def
        or_str_def strip_Nil default_config_def run_def Let_def never_healthy_def
        base_system_def split: prod.splits)
  have "ready (fst (get_environment_status registry_up False default_config []))"
    using environment_ready_iff [OF surjective_pairing surjective_pairing,
        where sys = registry_up and dry_run = False and tr = "[]" and cfg = default_config]
      pre_up up by simp
  moreover have "\<not> ready (fst (get_environment_status never_healthy False default_config []))"
    using environment_ready_iff [OF surjective_pairing surjective_pairing,
        where sys = never_healthy and dry_run = False and tr = "[]" and cfg = default_config]
      down by simp
  ultimately show ?thesis using pre_nh down by blast
qed

subsection \<open>C3: the bound of the health poll\<close>

text \<open>
  Claim C3 says that whenever the health probe never reports success,
  \<open>start_registry\<close> makes exactly 30 probes and then returns failure, never after
  fewer. That hypothesis alone is not enough. On a host where every command of the
  engine exits 1 the launch fails and \<open>start_registry\<close> returns failure without a
  single probe; where the container is listed as running it returns success without a
  probe; where the engine cannot be located the unguarded removal raises. In each of the
  three worlds the probe itself fails.
\<close>

theorem start_registry_poll_counterexample:
  "start_registry engine_down False default_config None None [] =
     (Inr False,
      [docker_ps,
       executed [''docker'', ''ps'', ''-a'', ''--filter'', ''publish=5001'', ''--format'', ''{{.ID}}''],
       executed [''docker'', ''rm'', ''-f'', ''local-registry''],
       executed [''docker'', ''run'', ''-d'', ''-p'', ''5001:5000'', ''--name'', ''local-registry'',
                 ''registry:2'']]) \<and>
   is_registry_healthy engine_down False default_config None [] = (False, [health_probe 5001]) \<and>
   start_registry running_unhealthy False default_config None None [] = (Inr True, [docker_ps]) \<and>
   is_registry_healthy running_unhealthy False default_config None [] =
     (False, [health_probe 5001]) \<and>
   start_registry nothing_installed False default_config None None [] =
     (Inl (CalledProcessError 127 (Argv [''docker'', ''rm'', ''-f'', ''local-registry'']) None
            (Some ''No such file or directory'')),
      [docker_ps,
       executed [''docker'', ''ps'', ''-a'', ''--filter'', ''publish=5001'', ''--format'', ''{{.ID}}''],
       executed [''docker'', ''rm'', ''-f'', ''local-registry'']]) \<and>
   is_registry_healthy nothing_installed False default_config None [] =
     (False, [health_probe 5001])"
  by (simp add: start_registry_def is_registry_running_def is_registry_healthy_def
      cleanup_registry_port_def docker_run_command_def run_def Let_def or_int_def or_str_def
      strip_def is_space_def is_space2_def is_space3_def is_str_def default_config_def str_int_5001 engine_down_def
      running_unhealthy_def nothing_installed_def base_system_def docker_ps_def
      health_probe_def executed_def)

text \<open>
  Claim C3, amended. If the container is not reported running, the removal of a stale
  container returns, the launch command succeeds, and the health probe never reports
  success, then \<open>start_registry\<close> makes exactly 30 probes, each followed by a sleep of
  one second, and returns failure.
\<close>

theorem start_registry_poll_bound:
  assumes never: "\<And>t. \<not> fst (is_registry_healthy sys dry_run cfg
                              (Some (or_int port (registry_port cfg))) t)"
    and absent: "is_registry_running sys dry_run cfg
                   (Some (or_str name (registry_name cfg))) tr = (False, tr1)"
    and removed: "run sys dry_run (Argv [''docker'', ''rm'', ''-f'', or_str name (registry_name cfg)])
                    None None True False None
                    (cleanup_registry_port sys dry_run (or_int port (registry_port cfg)) tr1)
                  = (Inr rm, tr3)"
    and launched: "run sys dry_run
                     (docker_run_command (or_int port (registry_port cfg))
                        (or_str name (registry_name cfg)))
                     None None True True None tr3 = (Inr result, tr4)"
  shows "start_registry sys dry_run cfg port name tr =
           (Inr False,
            tr4 @ concat (replicate 30 [health_probe (or_int port (registry_port cfg)), Sleep 1]))"
proof -
  have live: "\<not> dry_run"
    using never [of "[]"] by (auto simp add: is_registry_healthy_dry)
  have rc: "returncode result = 0"
    using launched live by (auto simp add: run_def Let_def split: proc_outcome.splits if_splits)
  show ?thesis
    using absent removed launched rc health_poll_never [OF never, of 30 tr4]
    by (simp add: start_registry_def Let_def or_int_idem)
qed

theorem start_registry_poll_bound_witness:
  "start_registry never_healthy False default_config None None [] =
     (Inr False,
      [docker_ps,
       executed [''docker'', ''ps'', ''-a'', ''--filter'', ''publish=5001'', ''--format'', ''{{.ID}}''],
       executed [''docker'', ''rm'', ''-f'', ''local-registry''],
       executed [''docker'', ''run'', ''-d'', ''-p'', ''5001:5000'', ''--name'', ''local-registry'',
                 ''registry:2'']]
      @ concat (replicate 30 [health_probe 5001, Sleep 1]))"
proof -
  have port: "or_int None (registry_port default_config) = 5001"
    by (simp add: or_int_def default_config_def)
  have name: "or_str None (registry_name default_config) = ''local-registry''"
    by (simp add: or_str_def default_config_def)
  have never: "\<not> fst (is_registry_healthy never_healthy False default_config
                        (Some (or_int None (registry_port default_config))) t)" for t
    by (simp add: is_registry_healthy_def run_def Let_def never_healthy_def base_system_def)
  have absent: "is_registry_running never_healthy False default_config
                  (Some (or_str None (registry_name default_config))) [] = (False, [docker_ps])"
    by (simp add: is_registry_running_def run_def Let_def never_healthy_def base_system_def
        name or_str_def default_config_def strip_Nil is_str_def docker_ps_def executed_def)
  have removed: "run never_healthy False
                   (Argv [''docker'', ''rm'', ''-f'', or_str None (registry_name default_config)])
                   None None True False None
                   (cleanup_registry_port never_healthy False
                      (or_int None (registry_port default_config)) [docker_ps]) =
                 (Inr \<lparr>args = Argv [''docker'', ''rm'', ''-f'', ''local-registry''], returncode = 0,
                       stdout = [], stderr = []\<rparr>,
                  [docker_ps,
                   executed [''docker'', ''ps'', ''-a'', ''--filter'', ''publish=5001'',
                             ''--format'', ''{{.ID}}''],
                   executed [''docker'', ''rm'', ''-f'', ''local-registry'']])"
    by (simp add: cleanup_registry_port_def run_def Let_def never_healthy_def base_system_def
        name port str_int_5001 strip_Nil is_str_def executed_def)
  have launched: "run never_healthy False
                    (docker_run_command (or_int None (registry_port default_config))
                       (or_str None (registry_name default_config)))
                    None None True True None
                    [docker_ps,
                     executed [''docker'', ''ps'', ''-a'', ''--filter'', ''publish=5001'',
                               ''--format'', ''{{.ID}}''],
                     executed [''docker'', ''rm'', ''-f'', ''local-registry'']] =
                  (Inr \<lparr>args = docker_run_command 5001 ''local-registry'', returncode = 0,
                        stdout = [], stderr = []\<rparr>,
                   [docker_ps,
                    executed [''docker'', ''ps'', ''-a'', ''--filter'', ''publish=5001'',
                              ''--format'', ''{{.ID}}''],
                    executed [''docker'', ''rm'', ''-f'', ''local-registry''],
                    executed [''docker'', ''run'', ''-d'', ''-p'', ''5001:5000'', ''--name'',
                              ''local-registry'', ''registry:2'']])"
    by (simp add: docker_run_command_def run_def Let_def never_healthy_def base_system_def
        name port str_int_5001 is_str_def executed_def)
  show ?thesis
    using start_registry_poll_bound [OF never absent removed launched]
    by (simp only: port)
qed

subsection \<open>C4: starting twice\<close>

text \<open>
  Claim C4. When a first call of \<open>start_registry\<close> has succeeded and the named
  container is reported running, a second call with the same port and name returns
  success and does nothing but list the running containers (nothing at all in dry-run
  mode): no cleanup of the port, no forced removal, no launch.
\<close>

theorem start_registry_idempotent:
  assumes first: "start_registry sys dry_run cfg port name tr0 = (Inr True, tr1)"
    and running: "fst (is_registry_running sys dry_run cfg
                         (Some (or_str name (registry_name cfg))) tr1)"
  shows "start_registry sys dry_run cfg port name tr1 =
           (Inr True, tr1 @ (if dry_run then [] else [docker_ps]))"
  using running
    is_registry_running_trace [of sys dry_run cfg "Some (or_str name (registry_name cfg))" tr1]
  by (cases "is_registry_running sys dry_run cfg (Some (or_str name (registry_name cfg))) tr1")
     (simp add: start_registry_def Let_def)

theorem start_registry_idempotent_witness:
  "start_registry registry_up False default_config None None [] = (Inr True, [docker_ps]) \<and>
   start_registry registry_up False default_config None None [docker_ps] =
     (Inr True, [docker_ps, docker_ps])"
proof -
  have listed: "is_registry_running registry_up False default_config
                  (Some (or_str None (registry_name default_config))) t = (True, t @ [docker_ps])"
    for t
    by (simp add: is_registry_running_def run_def Let_def registry_up_def base_system_def
        or_str_def default_config_def strip_def is_space_def is_space2_def is_space3_def is_str_def docker_ps_def
        executed_def)
  have first: "start_registry registry_up False default_config None None [] =
                 (Inr True, [docker_ps])"
    using listed [of "[]"] by (simp add: start_registry_def Let_def)
  have running: "fst (is_registry_running registry_up False default_config
                        (Some (or_str None (registry_name default_config))) [docker_ps])"
    using listed [of "[docker_ps]"] by simp
  show ?thesis
    using first start_registry_idempotent [OF first running] by simp
qed

subsection \<open>C5: the registry URL\<close>

text \<open>
  Claim C5 says that the registry URL is \<open>host:port\<close>, that host \<open>example.com\<close>
  with port 8080 gives \<open>example.com:8080\<close>, and that the URL of the registry status
  record reflects the configured host. The last part fails: \<open>get_registry_status\<close>
  writes \<open>localhost\<close> into its URL whatever the configuration says. With the host
  \<open>example.com\<close> the status URL is \<open>http://localhost:8080\<close>, which does not contain
  the host.
\<close>

theorem status_url_counterexample:
  "url (fst (get_registry_status nothing_installed True example_config [])) =
     ''http://localhost:8080'' \<and>
   registry_host example_config = ''example.com'' \<and>
   \<not> str_in ''example.com''
       (url (fst (get_registry_status nothing_installed True example_config [])))"
  by (simp add: get_registry_status_def Let_def is_registry_running_dry is_registry_healthy_dry
      example_config_def default_config_def str_int_8080)

text \<open>
  Claim C5, amended. The registry URL of the configuration is the configured host, a
  colon and the port in decimal; for host \<open>example.com\<close> and port 8080 it is
  \<open>example.com:8080\<close>. The URL of the registry status record is
  \<open>http://localhost:\<close> followed by the configured port, for every configured host.
\<close>

theorem registry_url_composition:
  "registry_url cfg = registry_host cfg @ '':'' @ str_int (registry_port cfg) \<and>
   registry_url example_config = ''example.com:8080'' \<and>
   url (fst (get_registry_status sys dry_run cfg tr)) =
     ''http://localhost:'' @ str_int (registry_port cfg)"
  by (simp add: registry_url_def example_config_def default_config_def str_int_8080
      get_registry_status_def Let_def split: prod.splits)

subsection \<open>C6: a program that cannot be located\<close>

text \<open>
  Claim C6 says that every invocation of the runner whose program cannot be located
  reports a not-found condition with exit code 127. In dry-run mode the runner does not
  try to start the program: on a host where nothing is installed, and where starting
  \<open>nosuch\<close> would raise the not-found error, it returns a completed process with
  exit code 0.
\<close>

theorem run_not_found_counterexample:
  "sys_which nothing_installed [] ''nosuch'' = False \<and>
   sys_subprocess nothing_installed []
     \<lparr>inv_command = Argv [''nosuch''], inv_cwd = None, inv_env = None, inv_capture_output = True,
      inv_shell = False\<rparr> = FileNotFound ''No such file or directory'' \<and>
   run nothing_installed True (Argv [''nosuch'']) None None True False None [] =
     (Inr \<lparr>args = Argv [''nosuch''], returncode = 0, stdout = [], stderr = []\<rparr>, [])"
  by (simp add: run_dry nothing_installed_def base_system_def)

text \<open>
  Claim C6, amended. For every invocation of the runner outside dry-run mode whose
  program cannot be located, the runner raises the called-process error that carries
  exit code 127 and the message of the not-found error, whether or not the call asked
  for an exception on a non-zero exit code.
\<close>

theorem run_not_found:
  "sys_subprocess sys tr
     \<lparr>inv_command = cmd, inv_cwd = cwd, inv_env = env, inv_capture_output = capture_output,
      inv_shell = (case shell of None \<Rightarrow> is_str cmd | Some b \<Rightarrow> b)\<rparr> = FileNotFound msg \<Longrightarrow>
   fst (run sys False cmd cwd env capture_output check shell tr) =
     Inl (CalledProcessError 127 cmd None (Some msg))"
  by (simp add: run_def Let_def)

theorem run_not_found_witness:
  "sys_subprocess nothing_installed []
     \<lparr>inv_command = Argv [''nosuch''], inv_cwd = None, inv_env = None, inv_capture_output = True,
      inv_shell = False\<rparr> = FileNotFound ''No such file or directory'' \<and>
   fst (run nothing_installed False (Argv [''nosuch'']) None None True False None []) =
     Inl (CalledProcessError 127 (Argv [''nosuch'']) None (Some ''No such file or directory''))"
proof -
  have missing: "sys_subprocess nothing_installed []
      \<lparr>inv_command = Argv [''nosuch''], inv_cwd = None, inv_env = None,
       inv_capture_output = True,
       inv_shell = (case None of None \<Rightarrow> is_str (Argv [''nosuch'']) | Some b \<Rightarrow> b)\<rparr>
      = FileNotFound ''No such file or directory''"
    by (simp add: nothing_installed_def base_system_def)
  have "fst (run nothing_installed False (Argv [''nosuch'']) None None True False None []) =
     Inl (CalledProcessError 127 (Argv [''nosuch'']) None (Some ''No such file or directory''))"
    by (rule run_not_found [OF missing])
  moreover have "sys_subprocess nothing_installed []
     \<lparr>inv_command = Argv [''nosuch''], inv_cwd = None, inv_env = None, inv_capture_output = True,
      inv_shell = False\<rparr> = FileNotFound ''No such file or directory''"
    by (simp add: nothing_installed_def base_system_def)
  ultimately show ?thesis by blast
qed

subsection \<open>C7: the result of the environment setup\<close>

text \<open>
  The platform names of the concrete worlds in lower case, and two facts about the poll
  and the start of the registry where the probe cannot succeed.
\<close>

lemma lower_Linux: "lower ''Linux'' = ''linux''"
  by code_simp

lemma lower_x86_64: "lower ''x86_64'' = ''x86_64''"
  by code_simp

lemma health_poll_never_fst:
  assumes "\<And>t. \<not> fst (is_registry_healthy sys dry_run cfg (Some port) t)"
  shows "\<not> fst (health_poll sys dry_run cfg port n tr)"
  using health_poll_never [OF assms, of n tr] by simp

lemma start_registry_curl_missing:
  "fst (start_registry curl_missing False default_config None None t) = Inr False"
proof -
  have port: "or_int None (registry_port default_config) = 5001"
    by (simp add: or_int_def default_config_def)
  have name: "or_str None (registry_name default_config) = ''local-registry''"
    by (simp add: or_str_def default_config_def)
  have never: "\<not> fst (is_registry_healthy curl_missing False default_config (Some 5001) u)" for u
    by (simp add: is_registry_healthy_def run_def Let_def curl_missing_def base_system_def)
  have poll: "\<not> fst (health_poll curl_missing False default_config 5001 30 u)" for u
    by (rule health_poll_never_fst) (rule never)
  have absent: "\<not> fst (is_registry_running curl_missing False default_config
                         (Some ''local-registry'') u)" for u
    by (simp add: is_registry_running_def run_def Let_def or_str_def strip_Nil
        curl_missing_def base_system_def)
  have removed: "\<exists>r u'. run curl_missing False (Argv [''docker'', ''rm'', ''-f'', ''local-registry''])
                          None None True False None u = (Inr r, u')" for u
    by (simp add: run_def Let_def curl_missing_def base_system_def)
  have launched: "\<exists>r u'. run curl_missing False (docker_run_command 5001 ''local-registry'')
                           None None True True None u = (Inr r, u') \<and> returncode r = 0" for u
    by (simp add: run_def Let_def docker_run_command_def curl_missing_def base_system_def)
  obtain t1 where a: "is_registry_running curl_missing False default_config
                        (Some ''local-registry'') t = (False, t1)"
    using absent [of t]
    by (cases "is_registry_running curl_missing False default_config (Some ''local-registry'') t")
       simp
  obtain r t3 where b: "run curl_missing False (Argv [''docker'', ''rm'', ''-f'', ''local-registry''])
                          None None True False None
                          (cleanup_registry_port curl_missing False 5001 t1) = (Inr r, t3)"
    using removed by blast
  obtain r' t4 where c: "run curl_missing False (docker_run_command 5001 ''local-registry'')
                           None None True True None t3 = (Inr r', t4)"
    and rc: "returncode r' = 0"
    using launched by blast
  obtain t5 where d: "health_poll curl_missing False default_config 5001 30 t4 = (False, t5)"
    using poll [of t4]
    by (cases "health_poll curl_missing False default_config 5001 30 t4") simp
  show ?thesis
    by (simp add: start_registry_def Let_def port name a b c rc d)
qed

text \<open>
  Claim C7 says that \<open>setup_environment\<close> returns true if and only if no attempted
  fatal step failed, that it is false exactly when the attempted install of the managed
  CLI failed or the registry start failed with the engine available, and that a missing
  tool other than the managed CLI never makes it false. Two worlds contradict it. Where
  the install is attempted and fails and the unguarded removal of \<open>start_registry\<close>
  raises, there is no result at all: the exception escapes. Where only \<^verbatim>\<open>curl\<close> is
  missing, every health probe fails and the result is false, while the same host with
  \<^verbatim>\<open>curl\<close> gives true.
\<close>

theorem setup_environment_counterexample:
  "fst (check_prerequisites rm_raises False []) =
     [(''docker'', True), (''ocm'', False), (''curl'', True), (''kubectl'', True),
      (''kind'', True), (''git'', True)] \<and>
   \<not> fst (install_ocm_cli rm_raises False (snd (check_prerequisites rm_raises False []))) \<and>
   fst (setup_environment rm_raises False default_config True []) =
     Inl (OtherException ''Resource temporarily unavailable'') \<and>
   fst (check_prerequisites curl_missing False []) =
     [(''docker'', True), (''ocm'', True), (''curl'', False), (''kubectl'', True),
      (''kind'', True), (''git'', True)] \<and>
   fst (setup_environment curl_missing False default_config True []) = Inr False \<and>
   fst (setup_environment all_working False default_config True []) = Inr True"
proof -
  have pre_rm: "check_prerequisites rm_raises False [] =
     ([(''docker'', True), (''ocm'', False), (''curl'', True), (''kubectl'', True),
       (''kind'', True), (''git'', True)],
      [Which ''docker'', executed [''docker'', ''info''], Which ''ocm'', Which ''curl'',
       Which ''kubectl'', Which ''kind'', Which ''git''])"
    by (simp add: check_prerequisites_def check_docker_available_def check_ocm_available_def
        command_exists_def run_def Let_def is_str_def executed_def rm_raises_def
        base_system_def)
  have install_rm: "install_ocm_cli rm_raises False
      [Which ''docker'', executed [''docker'', ''info''], Which ''ocm'', Which ''curl'',
       Which ''kubectl'', Which ''kind'', Which ''git''] =
     (False,
      [Which ''docker'', executed [''docker'', ''info''], Which ''ocm'', Which ''curl'',
       Which ''kubectl'', Which ''kind'', Which ''git'', Which ''ocm'', UrlOpen api_url])"
    by (simp add: install_ocm_cli_def download_and_install_ocm_def
        download_and_install_try_def urlopen_def command_exists_def Let_def lower_Linux
        lower_x86_64 rm_raises_def base_system_def)
  have start_rm: "fst (start_registry rm_raises False default_config None None t) =
      Inl (OtherException ''Resource temporarily unavailable'')" for t
    by (simp add: start_registry_def is_registry_running_def cleanup_registry_port_def
        run_def Let_def or_int_def or_str_def strip_Nil default_config_def rm_raises_def
        base_system_def split: prod.splits)
  have rm: "fst (setup_environment rm_raises False default_config True []) =
      Inl (OtherException ''Resource temporarily unavailable'')"
    by (simp add: setup_environment_def pre_rm install_rm dict_get_def case_prod_unfold
        start_rm)
  have pre_curl: "check_prerequisites curl_missing False [] =
     ([(''docker'', True), (''ocm'', True), (''curl'', False), (''kubectl'', True),
       (''kind'', True), (''git'', True)],
      [Which ''docker'', executed [''docker'', ''info''], Which ''ocm'',
       executed [''ocm'', ''version''], Which ''curl'', Which ''kubectl'', Which ''kind'',
       Which ''git''])"
    by (simp add: check_prerequisites_def check_docker_available_def check_ocm_available_def
        command_exists_def run_def Let_def is_str_def executed_def curl_missing_def
        base_system_def)
  have curl: "fst (setup_environment curl_missing False default_config True []) = Inr False"
    by (simp add: setup_environment_def pre_curl dict_get_def case_prod_unfold
        start_registry_curl_missing)
  have pre_all: "check_prerequisites all_working False [] =
     ([(''docker'', True), (''ocm'', True), (''curl'', True), (''kubectl'', True),
       (''kind'', True), (''git'', True)],
      [Which ''docker'', executed [''docker'', ''info''], Which ''ocm'',
       executed [''ocm'', ''version''], Which ''curl'', Which ''kubectl'', Which ''kind'',
       Which ''git''])"
    by (simp add: check_prerequisites_def check_docker_available_def check_ocm_available_def
        command_exists_def run_def Let_def is_str_def executed_def all_working_def
        base_system_def)
  have start_all: "fst (start_registry all_working False default_config None None t) = Inr True"
    for t
    by (simp add: start_registry_def is_registry_running_def is_registry_healthy_def
        cleanup_registry_port_def docker_run_command_def run_def Let_def or_int_def or_str_def
        strip_Nil default_config_def all_working_def base_system_def eval_nat_numeral
        split: prod.splits)
  have all: "fst (setup_environment all_working False default_config True []) = Inr True"
    by (simp add: setup_environment_def pre_all dict_get_def case_prod_unfold start_all)
  show ?thesis
    using rm curl all by (simp add: pre_rm install_rm pre_curl)
qed

text \<open>
  Claim C7, amended. Whenever the registry start does not raise, \<open>setup_environment\<close>
  returns, and its result is true if and only if no attempted fatal step failed: it is
  false exactly when the install of the managed CLI was attempted (installing was asked
  for and the CLI is missing) and failed, or the container engine was available and the
  registry start returned failure. Of the prerequisite mapping only the entries of the
  managed CLI and of the engine enter the result; another missing tool makes the result
  false only where it makes the registry start fail.
\<close>

theorem setup_environment_result:
  assumes "check_prerequisites sys dry_run tr = (pre, tr1)"
    and "attempted = (install_missing \<and> \<not> dict_get pre ''ocm'' False)"
    and "install = install_ocm_cli sys dry_run tr1"
    and "engine = dict_get pre ''docker'' False"
    and "start = start_registry sys dry_run cfg None None (if attempted then snd install else tr1)"
    and "\<not> (engine \<and> isl (fst start))"
  shows "fst (setup_environment sys dry_run cfg install_missing tr) =
           Inr (\<not> (attempted \<and> \<not> fst install) \<and> \<not> (engine \<and> fst start = Inr False)) \<and>
         (fst (setup_environment sys dry_run cfg install_missing tr) = Inr False \<longrightarrow>
            attempted \<and> \<not> fst install \<or> engine \<and> fst start = Inr False)"
  using assms
  by (auto simp add: setup_environment_def split: prod.splits sum.splits if_splits)

theorem setup_environment_result_witness:
  "\<not> fst (install_ocm_cli nothing_installed False
            (snd (check_prerequisites nothing_installed False []))) \<and>
   fst (setup_environment nothing_installed False default_config True []) = Inr False \<and>
   fst (setup_environment registry_up False default_config True []) = Inr True"
proof -
  have pre: "check_prerequisites nothing_installed False [] =
     ([(''docker'', False), (''ocm'', False), (''curl'', False), (''kubectl'', False),
       (''kind'', False), (''git'', False)],
      [Which ''docker'', Which ''ocm'', Which ''curl'', Which ''kubectl'', Which ''kind'',
       Which ''git''])"
    by (simp add: check_prerequisites_def check_docker_available_def check_ocm_available_def
        command_exists_def nothing_installed_def base_system_def)
  have failed: "\<not> fst (install_ocm_cli nothing_installed False
            [Which ''docker'', Which ''ocm'', Which ''curl'', Which ''kubectl'', Which ''kind'',
             Which ''git''])"
    by (simp add: install_ocm_cli_def download_and_install_ocm_def download_and_install_try_def
        place_binary_def get_install_directory_def urlopen_def mktemp_def fs_op_def
        command_exists_def Let_def lower_def lower_char_def nothing_installed_def
        base_system_def)
  have no_engine: "\<not> (dict_get [(''docker'', False), (''ocm'', False), (''curl'', False),
        (''kubectl'', False), (''kind'', False), (''git'', False)] ''docker'' False \<and> b)" for b
    by (simp add: dict_get_def)
  have down: "fst (setup_environment nothing_installed False default_config True []) = Inr False"
    using failed
      setup_environment_result [OF pre refl refl refl refl no_engine,
        where install_missing = True and cfg = default_config]
    by (simp add: dict_get_def)
  have pre_up: "check_prerequisites registry_up False [] =
     ([(''docker'', True), (''ocm'', True), (''curl'', True), (''kubectl'', True),
       (''kind'', True), (''git'', True)],
      [Which ''docker'', executed [''docker'', ''info''], Which ''ocm'',
       executed [''ocm'', ''version''], Which ''curl'', Which ''kubectl'', Which ''kind'',
       Which ''git''])"
    by (simp add: check_prerequisites_def check_docker_available_def check_ocm_available_def
        command_exists_def run_def Let_def is_str_def executed_def registry_up_def
        base_system_def)
  have started: "fst (start_registry registry_up False default_config None None t) = Inr True"
    for t
    by (simp add: start_registry_def is_registry_running_def run_def Let_def or_str_def
        strip_def is_space_def is_space2_def is_space3_def default_config_def registry_up_def base_system_def
        split: prod.splits)
  have returns: "\<not> (dict_get [(''docker'', True), (''ocm'', True), (''curl'', True),
        (''kubectl'', True), (''kind'', True), (''git'', True)] ''docker'' False \<and>
      isl (fst (start_registry registry_up False default_config None None t)))" for t
    by (simp add: started)
  have up: "fst (setup_environment registry_up False default_config True []) = Inr True"
    using setup_environment_result [OF pre_up refl refl refl refl returns,
        where install_missing = True]
    by (simp add: dict_get_def started)
  show ?thesis using failed down up by (simp add: pre)
qed

subsection \<open>C8: the list of examples\<close>

text \<open>
  Claim C8. For every listing of the examples root, \<open>list_available_examples\<close>
  returns exactly the names of the entries that are directories and whose names do not
  begin with a dot, each as often as it is listed, in ascending order; a root that does
  not exist gives the empty list; the entries \<open>02-transport\<close>, \<open>.hidden\<close> and
  \<open>01-basic\<close> give \<open>01-basic\<close>, \<open>02-transport\<close>.
\<close>

theorem list_available_examples_sorted_visible:
  "sorted (list_available_examples (Some items)) \<and>
   mset (list_available_examples (Some items)) =
     {#entry_name e. e \<in># filter_mset (\<lambda>e. is_dir e \<and> take 1 (entry_name e) \<noteq> ''.'') (mset items)#} \<and>
   list_available_examples None = [] \<and>
   list_available_examples
     (Some [\<lparr>entry_name = ''02-transport'', is_dir = True\<rparr>,
            \<lparr>entry_name = ''.hidden'', is_dir = True\<rparr>,
            \<lparr>entry_name = ''01-basic'', is_dir = True\<rparr>]) = [''01-basic'', ''02-transport'']"
proof -
  have hidden: "startswith s ''.'' = (take 1 s = ''.'')" for s
    by (cases s) auto
  show ?thesis
    by (simp add: list_available_examples_def hidden)
qed

subsection \<open>C9: the engine flag of the registry status in dry-run mode\<close>

text \<open>
  Claim C9. In dry-run mode \<open>get_registry_status\<close> reports the container engine as
  available in every world, also one without the engine, and probes nothing: the trace
  is the one it was given.
\<close>

theorem registry_status_dry_run:
  "docker_available (fst (get_registry_status sys True cfg tr)) \<and>
   snd (get_registry_status sys True cfg tr) = tr"
  by (simp add: get_registry_status_def Let_def is_registry_running_dry is_registry_healthy_dry)

subsection \<open>C10: the triple of \<open>run_with_output\<close>\<close>

text \<open>
  Claim C10 says that \<open>run_with_output\<close> always returns a triple, that every
  exception, the not-found one included, becomes \<open>(1, '', message)\<close>, and that
  therefore exit code 127 is never seen at this interface. The last part fails: a process
  that itself exits with 127 is passed through. A shell line that names a missing
  program is such a process: the shell exits with 127.
\<close>

theorem run_with_output_127_counterexample:
  "run_with_output shell_not_found False (Shell ''nosuch'') None None [] =
     ((127, [], ''sh: 1: nosuch: not found''),
      [Subprocess \<lparr>inv_command = Shell ''nosuch'', inv_cwd = None, inv_env = None,
                   inv_capture_output = True, inv_shell = True\<rparr>])"
  by (simp add: run_with_output_def run_def Let_def shell_not_found_def base_system_def is_str_def)

text \<open>
  Claim C10, amended. \<open>run_with_output\<close> always returns a triple: in dry-run mode
  \<open>(0, '', '')\<close>; otherwise the exit code and the streams of a process that exited,
  and \<open>(1, '', message)\<close> for every exception of the runner, where the not-found
  error arrives as the called-process error with code 127 and only its message is kept.
  The exit code 127 is seen exactly when the process itself exited with 127.
\<close>

theorem run_with_output_cases:
  "fst (run_with_output sys dry_run cmd cwd env tr) =
     (if dry_run then (0, [], [])
      else case sys_subprocess sys tr
                  \<lparr>inv_command = cmd, inv_cwd = cwd, inv_env = env, inv_capture_output = True,
                   inv_shell = is_str cmd\<rparr> of
             Exited rc out err \<Rightarrow> (rc, out, err)
           | FileNotFound msg \<Rightarrow> (1, [], sys_exn_str sys (CalledProcessError 127 cmd None (Some msg)))
           | Failed msg \<Rightarrow> (1, [], sys_exn_str sys (OtherException msg))) \<and>
   (fst (fst (run_with_output sys dry_run cmd cwd env tr)) = 127) =
     (\<not> dry_run \<and>
      (\<exists>out err. sys_subprocess sys tr
                   \<lparr>inv_command = cmd, inv_cwd = cwd, inv_env = env, inv_capture_output = True,
                    inv_shell = is_str cmd\<rparr> = Exited 127 out err))"
  by (simp add: run_with_output_def run_def Let_def split: proc_outcome.splits)

end
